theory Spec2Isabelle
  imports Main "HOL-Library.AList"
begin

section \<open>Exceptions and effects\<close>

text \<open>
  The JavaScript of geometrycontrols.js mutates objects and may throw. A computation is a
  function from the state before to an outcome and the state after: the outcome is
  \<open>Inl e\<close> when the code throws \<open>e\<close> and \<open>Inr v\<close> when it returns \<open>v\<close>. The state
  survives a throw, as the mutations made before it do.
\<close>

datatype js_error = TypeError | Thrown string | ThrownNullish

type_synonym ('v, 's) js = "'s \<Rightarrow> (js_error + 'v) \<times> 's"

definition js_return :: "'v \<Rightarrow> ('v, 's) js" where
  "js_return v s = (Inr v, s)"

definition js_throw :: "js_error \<Rightarrow> ('v, 's) js" where
  "js_throw e s = (Inl e, s)"

definition js_bind :: "('v, 's) js \<Rightarrow> ('v \<Rightarrow> ('w, 's) js) \<Rightarrow> ('w, 's) js" where
  "js_bind m k s = (case m s of (Inl e, s') \<Rightarrow> (Inl e, s') | (Inr v, s') \<Rightarrow> k v s')"

section \<open>Ajaxpect: the aop member of the prototype (lines 473-519)\<close>

text \<open>
  A function value takes its receiver (\<open>this\<close>), its \<open>arguments\<close> object and the state.
  An object is the list of its enumerable function-valued members, in the order
  \<open>for (var member in obj)\<close> visits them. A member that the object does not have reads as
  \<open>undefined\<close>, here \<open>None\<close>.
\<close>

type_synonym ('t, 'a, 'v, 's) jsfun = "'t \<Rightarrow> 'a \<Rightarrow> ('v, 's) js"

type_synonym ('t, 'a, 'v, 's) jsobj = "(string \<times> ('t, 'a, 'v, 's) jsfun) list"

text \<open>
  The \<open>filter\<close> argument of \<open>process_\<close>: a plain member name, an object with an \<open>exec\<close>
  method (a regular expression) or an object with a \<open>call\<close> method (a function). For the
  last two only the truthiness of the answer is used.
\<close>

datatype member_filter = Name string | RegExp "string \<Rightarrow> bool" | Predicate "string \<Rightarrow> bool"

text \<open>\<open>attach_\<close>: \<open>var orig = obj[member]; obj[member] = link(orig);\<close>\<close>

definition attach_aop ::
  "('t, 'a, 'v, 's) jsobj \<Rightarrow> string \<Rightarrow>
   (('t, 'a, 'v, 's) jsfun option \<Rightarrow> ('t, 'a, 'v, 's) jsfun) \<Rightarrow> ('t, 'a, 'v, 's) jsobj" where
  "attach_aop obj member link =
     (let orig = map_of obj member in AList.update member (link orig) obj)"

text \<open>The loop of \<open>process_\<close> over the members of \<open>obj\<close>.\<close>

fun process_members ::
  "(string \<Rightarrow> bool) \<Rightarrow> (('t, 'a, 'v, 's) jsfun option \<Rightarrow> ('t, 'a, 'v, 's) jsfun) \<Rightarrow>
   string list \<Rightarrow> ('t, 'a, 'v, 's) jsobj \<Rightarrow> ('t, 'a, 'v, 's) jsobj" where
  "process_members check link [] obj = obj"
| "process_members check link (member # rest) obj =
     process_members check link rest
       (if check member then attach_aop obj member link else obj)"

fun process_aop ::
  "('t, 'a, 'v, 's) jsobj \<Rightarrow> member_filter \<Rightarrow>
   (('t, 'a, 'v, 's) jsfun option \<Rightarrow> ('t, 'a, 'v, 's) jsfun) \<Rightarrow> ('t, 'a, 'v, 's) jsobj" where
  "process_aop obj (RegExp exec) link = process_members exec link (map fst obj) obj"
| "process_aop obj (Predicate call) link = process_members call link (map fst obj) obj"
| "process_aop obj (Name filter') link = attach_aop obj filter' link"

text \<open>
  \<open>orig.apply(this, xs)\<close>: reading \<open>apply\<close> off an \<open>undefined\<close> original throws a
  TypeError, and it does so before the argument expression \<open>xs\<close> is evaluated.
\<close>

definition apply_orig ::
  "('t, 'a, 'v, 's) jsfun option \<Rightarrow> 't \<Rightarrow> ('a, 's) js \<Rightarrow> ('v, 's) js" where
  "apply_orig orig this xs =
     (case orig of None \<Rightarrow> js_throw TypeError
      | Some f \<Rightarrow> js_bind xs (\<lambda>args. f this args))"

text \<open>
  \<open>addBefore\<close>: the wrapper is
  \<open>function() { return orig.apply(this, before(arguments, orig, this)); }\<close>
\<close>

definition addBefore ::
  "('t, 'a, 'v, 's) jsobj \<Rightarrow> member_filter \<Rightarrow>
   ('a \<Rightarrow> ('t, 'a, 'v, 's) jsfun option \<Rightarrow> 't \<Rightarrow> ('a, 's) js) \<Rightarrow> ('t, 'a, 'v, 's) jsobj" where
  "addBefore obj filter' before =
     (let link = (\<lambda>orig. (\<lambda>this arguments.
            apply_orig orig this (before arguments orig this)))
      in process_aop obj filter' link)"

text \<open>
  \<open>addAfter\<close>: the wrapper is
  \<open>function() { return after(orig.apply(this, arguments), arguments, orig, this); }\<close>
\<close>

definition addAfter ::
  "('t, 'a, 'v, 's) jsobj \<Rightarrow> member_filter \<Rightarrow>
   ('v \<Rightarrow> 'a \<Rightarrow> ('t, 'a, 'v, 's) jsfun option \<Rightarrow> 't \<Rightarrow> ('v, 's) js) \<Rightarrow> ('t, 'a, 'v, 's) jsobj" where
  "addAfter obj filter' after =
     (let link = (\<lambda>orig. (\<lambda>this arguments.
            js_bind (apply_orig orig this (js_return arguments))
              (\<lambda>result. after result arguments orig this)))
      in process_aop obj filter' link)"

text \<open>
  \<open>addAround\<close>: the wrapper is \<open>function() { return around(arguments, orig, this); }\<close>
\<close>

definition addAround ::
  "('t, 'a, 'v, 's) jsobj \<Rightarrow> member_filter \<Rightarrow>
   ('a \<Rightarrow> ('t, 'a, 'v, 's) jsfun option \<Rightarrow> 't \<Rightarrow> ('v, 's) js) \<Rightarrow> ('t, 'a, 'v, 's) jsobj" where
  "addAround obj filter' around =
     (let link = (\<lambda>orig. (\<lambda>this arguments. around arguments orig this))
      in process_aop obj filter' link)"

text \<open>
  The method call \<open>receiver.member(args)\<close> on an object whose members are \<open>obj\<close>: a
  missing member is not callable.
\<close>

definition call_member ::
  "('t, 'a, 'v, 's) jsobj \<Rightarrow> string \<Rightarrow> 't \<Rightarrow> 'a \<Rightarrow> ('v, 's) js" where
  "call_member obj member this args =
     (case map_of obj member of None \<Rightarrow> js_throw TypeError | Some f \<Rightarrow> f this args)"

section \<open>Buttons: createButton, its click listener and toggleButtons (lines 154-216)\<close>

text \<open>
  A button as \<open>createButton\<close> builds it: \<open>button.opts.img_up_url\<close>,
  \<open>button.opts.img_down_url\<close> and the \<open>src\<close> attribute of \<open>button.img\<close>.
\<close>

record button =
  img_up_url :: string
  img_down_url :: string
  img_src :: string

text \<open>
  Button objects are mutated in place and the click listener of a button holds on to its
  own object. So the objects live in a store, the list of all buttons created so far, and
  a button is known by its position there. \<open>me.buttons_\<close> maps a control name to the
  position of its button, in the order \<open>for (var button in me.buttons_)\<close> visits it.
\<close>

type_synonym button_ref = nat

type_synonym button_table = "(string \<times> button_ref) list"

text \<open>
  The digitizing functions belong to the geometry controls and are not part of this file.
  They are taken as parameters: what such a function does to the button objects (for
  instance by calling \<open>toggleButtons\<close> itself), given \<open>me.buttons_\<close>, is a function on
  the store. A stop function receives \<open>Some False\<close> for the call
  \<open>stopDigitizingFuncs_[func](false)\<close> and \<open>None\<close> for the call
  \<open>opts.stopDigitizing()\<close>, which passes no argument.
\<close>

type_synonym start_fn = "button_table \<Rightarrow> button list \<Rightarrow> button list"

type_synonym stop_fn = "bool option \<Rightarrow> button_table \<Rightarrow> button list \<Rightarrow> button list"

datatype digitizer_call = StartDigitizing string | StopDigitizing string "bool option"

text \<open>
  The part of the GeometryControls instance that the buttons use: the button objects,
  \<open>me.buttons_\<close>, \<open>me.stopDigitizingFuncs_\<close>, and a log of the calls made to digitizing
  functions.
\<close>

record controls_state =
  objects :: "button list"
  buttons :: button_table
  stopDigitizingFuncs :: "(string \<times> stop_fn) list"
  calls :: "digitizer_call list"

record required_opts =
  controlName :: string
  opt_img_up_url :: string
  opt_img_down_url :: string
  startDigitizing :: start_fn
  stopDigitizing :: stop_fn

text \<open>
  \<open>createButton\<close>: a new button object, its image on \<open>img_up_url\<close>; the button and the
  stop function are stored under \<open>opts.controlName\<close>, replacing what was stored there,
  and the button is returned. The guard of line 158 rejects a \<open>stopDigitizing\<close> that is
  not a function, which the type of \<open>stopDigitizing\<close> excludes here.
\<close>

definition createButton :: "required_opts \<Rightarrow> controls_state \<Rightarrow> button_ref \<times> controls_state" where
  "createButton opts me =
     (let button = \<lparr>img_up_url = opt_img_up_url opts, img_down_url = opt_img_down_url opts,
                     img_src = opt_img_up_url opts\<rparr>;
          r = length (objects me)
      in (r, me\<lparr>objects := objects me @ [button],
                buttons := AList.update (controlName opts) r (buttons me),
                stopDigitizingFuncs :=
                  AList.update (controlName opts) (stopDigitizing opts) (stopDigitizingFuncs me)\<rparr>))"

text \<open>
  \<open>button.img.src = button.opts.img_..._url\<close> on the button at position \<open>r\<close>. Every position that
  \<open>createButton\<close> hands out is inside the store.
\<close>

definition set_src :: "(button \<Rightarrow> string) \<Rightarrow> button_ref \<Rightarrow> button list \<Rightarrow> button list" where
  "set_src which r objs = objs[r := (objs ! r)\<lparr>img_src := which (objs ! r)\<rparr>]"

text \<open>The first loop of \<open>toggleButtons\<close>: every image in \<open>me.buttons_\<close> goes back to its up url.\<close>

fun all_up :: "button_table \<Rightarrow> button list \<Rightarrow> button list" where
  "all_up [] objs = objs"
| "all_up ((name, r) # rest) objs = all_up rest (set_src img_up_url r objs)"

text \<open>A call of a stop function: it is logged, then its effect on the buttons applies.\<close>

definition call_stop :: "string \<Rightarrow> stop_fn \<Rightarrow> bool option \<Rightarrow> controls_state \<Rightarrow> controls_state" where
  "call_stop name f arg me =
     me\<lparr>objects := f arg (buttons me) (objects me),
        calls := calls me @ [StopDigitizing name arg]\<rparr>"

definition call_start :: "string \<Rightarrow> start_fn \<Rightarrow> controls_state \<Rightarrow> controls_state" where
  "call_start name f me =
     me\<lparr>objects := f (buttons me) (objects me), calls := calls me @ [StartDigitizing name]\<rparr>"

text \<open>
  The second loop of \<open>toggleButtons\<close>:
  \<open>for (var func in me.stopDigitizingFuncs_) if (func != button_name) ...(false)\<close>
\<close>

fun stop_others :: "string \<Rightarrow> (string \<times> stop_fn) list \<Rightarrow> controls_state \<Rightarrow> controls_state" where
  "stop_others button_name [] me = me"
| "stop_others button_name ((func, f) # rest) me =
     stop_others button_name rest
       (if func \<noteq> button_name then call_stop func f (Some False) me else me)"

text \<open>
  \<open>toggleButtons\<close>. Both tests \<open>if (button_name)\<close> fail for \<open>undefined\<close> (no argument,
  \<open>None\<close>) and for the empty string. With another name that has no button,
  \<open>me.buttons_[button_name].img\<close> throws a TypeError after the first loop has run.
\<close>

definition toggleButtons :: "string option \<Rightarrow> (unit, controls_state) js" where
  "toggleButtons button_name me =
     (let me1 = me\<lparr>objects := all_up (buttons me) (objects me)\<rparr> in
      case button_name of
        None \<Rightarrow> (Inr (), me1)
      | Some name \<Rightarrow>
          if name = [] then (Inr (), me1)
          else
            (case map_of (buttons me1) name of
               None \<Rightarrow> (Inl TypeError, me1)
             | Some r \<Rightarrow>
                 (let me2 = me1\<lparr>objects := set_src img_down_url r (objects me1)\<rparr>
                  in (Inr (), stop_others name (stopDigitizingFuncs me2) me2))))"

text \<open>
  The click listener that \<open>createButton\<close> attaches (lines 176-184). It closes over the
  options and over its button, the one at position \<open>r\<close>, whose image it tests; the button
  that \<open>toggleButtons\<close> then looks up under \<open>opts.controlName\<close> is another one once that
  name has been given to a later button. A listener exists only for a button in the store.
\<close>

definition is_up :: "button_ref \<Rightarrow> controls_state \<Rightarrow> bool" where
  "is_up r me =
     (r < length (objects me) \<and> img_src (objects me ! r) = img_up_url (objects me ! r))"

definition click :: "required_opts \<Rightarrow> button_ref \<Rightarrow> (unit, controls_state) js" where
  "click opts r me =
     (if is_up r me then
        js_bind (toggleButtons (Some (controlName opts)))
          (\<lambda>_ me'. (Inr (), call_start (controlName opts) (startDigitizing opts) me')) me
      else
        js_bind (toggleButtons (Some (controlName opts)))
          (\<lambda>_ me'. (Inr (), call_stop (controlName opts) (stopDigitizing opts) None me')) me)"

text \<open>A sequence of \<open>toggleButtons(name)\<close> calls; a throw ends it.\<close>

fun toggle_all :: "string list \<Rightarrow> (unit, controls_state) js" where
  "toggle_all [] me = (Inr (), me)"
| "toggle_all (name # names) me =
     js_bind (toggleButtons (Some name)) (\<lambda>_. toggle_all names) me"

text \<open>
  The button's logical state, as the click listener reads it at line 177: the button is
  off exactly when its image is the up image.
\<close>

definition is_on :: "button \<Rightarrow> bool" where
  "is_on b = (img_src b \<noteq> img_up_url b)"

text \<open>
  The note at lines 207-208 asks that calls of \<open>toggleButtons\<close> from outside pass no
  name. A stop function that keeps to it, when \<open>toggleButtons\<close> calls it with \<open>false\<close>,
  leaves the buttons alone or resets them all to the up image.
\<close>

definition keeps_protocol :: "stop_fn \<Rightarrow> bool" where
  "keeps_protocol f =
     (\<forall>table objs. f (Some False) table objs = objs \<or> f (Some False) table objs = all_up table objs)"

text \<open>
  What \<open>createButton\<close> maintains: every position in \<open>me.buttons_\<close> is inside the store,
  and no two names share a button.
\<close>

definition well_formed :: "controls_state \<Rightarrow> bool" where
  "well_formed me =
     ((\<forall>(n, r) \<in> set (buttons me). r < length (objects me)) \<and> distinct (map snd (buttons me)))"

text \<open>
  No registered button other than the named one is on, and a registered button that is on
  shows its down image.
\<close>

definition only_on :: "string \<Rightarrow> button_table \<Rightarrow> button list \<Rightarrow> bool" where
  "only_on name table objs =
     (\<forall>(n, r) \<in> set table.
        is_on (objs ! r) \<longrightarrow> n = name \<and> img_src (objs ! r) = img_down_url (objs ! r))"

section \<open>Dispatch to the geometry controls: addControl, debug, createGeometry_ (lines 225-289, 432-443)\<close>

text \<open>The record that \<open>createGeometry_\<close> receives, as its comment lists the fields.\<close>

record geometry_record =
  record_type :: string
  record_coordinates :: "(int \<times> int) list"
  record_title :: string
  record_description :: string
  record_style :: "(string \<times> string) list"

text \<open>
  A geometry control is an object of another file. Of it the dispatch uses three methods,
  each of which the object may lack (\<open>None\<close>); a load method returns a value or throws:
  \<open>Thrown\<close> stands for a thrown object or other value that has properties, and
  \<open>ThrownNullish\<close> for a thrown \<open>null\<close> or \<open>undefined\<close>.
\<close>

record 'v control =
  loadMarkers :: "(geometry_record \<Rightarrow> js_error + 'v) option"
  loadPolylines :: "(geometry_record \<Rightarrow> js_error + 'v) option"
  loadPolygons :: "(geometry_record \<Rightarrow> js_error + 'v) option"

text \<open>
  \<open>me.debug\<close> starts as the function of the prototype; its first call replaces it on the
  instance by a function that writes to GLog or by one that does nothing.
\<close>

datatype debug_impl = DebugOfPrototype | DebugWrites | DebugSilent

text \<open>
  The message of the catch block (lines 286-287): the fixed sentence, followed by what the
  engine prints for the caught \<open>e\<close>, for \<open>e.lineNumber\<close> and for \<open>e.fileName\<close>. These
  three texts are the engine's, so the message is kept as the error it is built from.
\<close>

datatype log_message = CatchMessage js_error

record 'v dispatch_state =
  controls :: "(string \<times> 'v control) list"
  Options_debug :: bool
  debug_fn :: debug_impl
  GLog :: "log_message list"
  loads :: "string list"

definition addControl :: "string \<Rightarrow> 'v control \<Rightarrow> 'v dispatch_state \<Rightarrow> 'v dispatch_state" where
  "addControl name control me = me\<lparr>controls := AList.update name control (controls me)\<rparr>"

fun tempFunc :: "debug_impl \<Rightarrow> log_message \<Rightarrow> 'v dispatch_state \<Rightarrow> 'v dispatch_state" where
  "tempFunc DebugWrites msg me = me\<lparr>GLog := GLog me @ [msg]\<rparr>"
| "tempFunc _ msg me = me"

definition debug :: "log_message \<Rightarrow> 'v dispatch_state \<Rightarrow> 'v dispatch_state" where
  "debug msg me =
     (case debug_fn me of
        DebugOfPrototype \<Rightarrow>
          (let chosen = (if Options_debug me then DebugWrites else DebugSilent)
           in tempFunc chosen msg (me\<lparr>debug_fn := chosen\<rparr>))
      | chosen \<Rightarrow> tempFunc chosen msg me)"

text \<open>
  \<open>me.controls[name].method(record)\<close>: a missing control or a missing method throws a
  TypeError; otherwise the call is logged under \<open>label\<close> and the method runs.
\<close>

definition call_load ::
  "string \<Rightarrow> ('v control \<Rightarrow> (geometry_record \<Rightarrow> js_error + 'v) option) \<Rightarrow> string \<Rightarrow>
   geometry_record \<Rightarrow> ('v option, 'v dispatch_state) js" where
  "call_load name method label record me =
     (case map_of (controls me) name of
        None \<Rightarrow> (Inl TypeError, me)
      | Some control \<Rightarrow>
          (case method control of
             None \<Rightarrow> (Inl TypeError, me)
           | Some load \<Rightarrow>
               (case load record of
                  Inl e \<Rightarrow> (Inl e, me\<lparr>loads := loads me @ [label]\<rparr>)
                | Inr v \<Rightarrow> (Inr (Some v), me\<lparr>loads := loads me @ [label]\<rparr>))))"

text \<open>The \<open>switch\<close> inside the \<open>try\<close>; no case matching, it falls out with \<open>undefined\<close>.\<close>

definition dispatch_switch :: "geometry_record \<Rightarrow> ('v option, 'v dispatch_state) js" where
  "dispatch_switch record me =
     (if record_type record = ''point'' then
        call_load ''markerControl'' loadMarkers ''loadMarkers'' record me
      else if record_type record = ''line'' then
        call_load ''polylineControl'' loadPolylines ''loadPolylines'' record me
      else if record_type record = ''poly'' then
        call_load ''polygonControl'' loadPolygons ''loadPolygons'' record me
      else (Inr None, me))"

text \<open>
  \<open>createGeometry_\<close>: what the load method returned, or \<open>undefined\<close> (\<open>None\<close>) after the
  catch block or when no case matched. The catch block builds its message before it calls
  \<open>me.debug\<close>; reading \<open>e.lineNumber\<close> off a caught \<open>null\<close> or \<open>undefined\<close> throws a
  TypeError there, which leaves the function.
\<close>

definition createGeometry :: "geometry_record \<Rightarrow> ('v option, 'v dispatch_state) js" where
  "createGeometry record me =
     (case dispatch_switch record me of
        (Inr v, me') \<Rightarrow> (Inr v, me')
      | (Inl e, me') \<Rightarrow>
          (if e = ThrownNullish then (Inl TypeError, me')
           else (Inr None, debug (CatchMessage e) me')))"

text \<open>
  The three cases of the \<open>switch\<close> as a relation, for the statements below: the type, the
  name of the control, its load method and the label under which the call is logged.
\<close>

definition dispatches ::
  "string \<Rightarrow> string \<Rightarrow> ('v control \<Rightarrow> (geometry_record \<Rightarrow> js_error + 'v) option) \<Rightarrow> string \<Rightarrow> bool" where
  "dispatches t name method label =
     ((t = ''point'' \<and> name = ''markerControl'' \<and> method = loadMarkers \<and> label = ''loadMarkers'')
      \<or> (t = ''line'' \<and> name = ''polylineControl'' \<and> method = loadPolylines
           \<and> label = ''loadPolylines'')
      \<or> (t = ''poly'' \<and> name = ''polygonControl'' \<and> method = loadPolygons
           \<and> label = ''loadPolygons''))"

section \<open>Persistence: saveData (lines 323-353)\<close>

text \<open>
  The values that \<open>saveData\<close> builds and hands to \<open>JSON.stringify\<close>. Coordinates are
  taken as whole numbers, which JavaScript prints in plain decimal notation.
\<close>

datatype json = JNum int | JStr string | JArr "json list" | JObj "(string \<times> json) list"

fun digit :: "nat \<Rightarrow> char" where
  "digit n = char_of (48 + n)"

function show_nat :: "nat \<Rightarrow> string" where
  "show_nat n = (if n < 10 then [digit n] else show_nat (n div 10) @ [digit (n mod 10)])"
  by pat_completeness auto
termination
  by (relation "measure id") auto

declare show_nat.simps [simp del]

definition show_int :: "int \<Rightarrow> string" where
  "show_int i = (if i < 0 then ''-'' @ show_nat (nat (- i)) else show_nat (nat i))"

fun join :: "string \<Rightarrow> string list \<Rightarrow> string" where
  "join sep [] = []"
| "join sep [x] = x"
| "join sep (x # y # ys) = x @ sep @ join sep (y # ys)"

text \<open>
  The quoting of \<open>JSON.stringify\<close>: a backslash before a double quote and before a
  backslash, the short escapes for backspace, tab, line feed, form feed and carriage
  return, and \<open>\u00XX\<close> for the other characters below 0x20.
\<close>

fun hex_digit :: "nat \<Rightarrow> char" where
  "hex_digit n = (if n < 10 then char_of (48 + n) else char_of (87 + n))"

definition escape_char :: "char \<Rightarrow> string" where
  "escape_char c =
     (if c = CHR 0x22 then [CHR 0x5C, CHR 0x22]
      else if c = CHR 0x5C then [CHR 0x5C, CHR 0x5C]
      else if c = CHR 0x08 then [CHR 0x5C, CHR ''b'']
      else if c = CHR 0x09 then [CHR 0x5C, CHR ''t'']
      else if c = CHR 0x0A then [CHR 0x5C, CHR ''n'']
      else if c = CHR 0x0C then [CHR 0x5C, CHR ''f'']
      else if c = CHR 0x0D then [CHR 0x5C, CHR ''r'']
      else if (of_char c :: nat) < 32 then
        [CHR 0x5C, CHR ''u'', CHR ''0'', CHR ''0'',
         hex_digit (of_char c div 16), hex_digit (of_char c mod 16)]
      else [c])"

definition quote :: "string \<Rightarrow> string" where
  "quote s = [CHR 0x22] @ concat (map escape_char s) @ [CHR 0x22]"

fun stringify :: "json \<Rightarrow> string"
  and stringify_elems :: "json list \<Rightarrow> string list"
  and stringify_props :: "(string \<times> json) list \<Rightarrow> string list" where
  "stringify (JNum i) = show_int i"
| "stringify (JStr s) = quote s"
| "stringify (JArr xs) = ''['' @ join '','' (stringify_elems xs) @ '']''"
| "stringify (JObj ps) = ''{'' @ join '','' (stringify_props ps) @ ''}''"
| "stringify_elems [] = []"
| "stringify_elems (x # xs) = stringify x # stringify_elems xs"
| "stringify_props [] = []"
| "stringify_props ((k, v) # ps) = (quote k @ '':'' @ stringify v) # stringify_props ps"

text \<open>A vertex of the geometry, read through \<open>vertex.lat()\<close> and \<open>vertex.lng()\<close>.\<close>

record vertex =
  lat :: int
  lng :: int

text \<open>
  A stored geometry (\<open>beans.Geometry\<close>, lines 379-385, with the \<open>id\<close> that \<open>saveData\<close>
  reads): \<open>geometry\<close> is the overlay, of which \<open>getVertexCount()\<close> and \<open>getVertex(i)\<close>
  are used, so it is the list of its vertices; \<open>title\<close> is the array of the current and
  the previous title; \<open>id\<close> may be \<open>undefined\<close>.
\<close>

record geometry_bean =
  bean_type :: string
  bean_geometry :: "vertex list"
  bean_title :: "string list"
  bean_id :: "string option"

record geom_info =
  index :: nat
  storage :: "geometry_bean list"

record save_opts =
  allData :: bool
  opts_geomInfo :: geom_info

text \<open>\<open>recordJSON\<close> with its fields \<open>type\<close>, \<open>geometry\<close> and \<open>name\<close>.\<close>

record recordJSON =
  json_type :: string
  json_geometry :: json
  json_name :: "string option"

text \<open>\<open>$.post(url, {area: recordJSON, _method: ...})\<close>\<close>

record post_request =
  url :: string
  area :: recordJSON
  method_override :: "string option"

record save_effects =
  console_log :: "string option"
  posted :: post_request

text \<open>
  The loop of lines 337-340, from index \<open>i\<close> on, pushing onto \<open>coordinates\<close>.
\<close>

function copy_vertices :: "vertex list \<Rightarrow> nat \<Rightarrow> json list \<Rightarrow> json list" where
  "copy_vertices geometry i coordinates =
     (if i < length geometry then
        copy_vertices geometry (i + 1)
          (coordinates @ [JArr [JNum (lng (geometry ! i)), JNum (lat (geometry ! i))]])
      else coordinates)"
  by pat_completeness auto
termination
  by (relation "measure (\<lambda>(geometry, i, coordinates). length geometry - i)") auto

declare copy_vertices.simps [simp del]

text \<open>
  \<open>saveData\<close>: \<open>geomInfo.storage[index]\<close> out of range is \<open>undefined\<close>, and reading its
  \<open>type\<close> throws. Otherwise the function logs \<open>record.id\<close> and posts the record.
\<close>

definition saveData :: "save_opts \<Rightarrow> js_error + save_effects" where
  "saveData opts =
     (let info = opts_geomInfo opts; i = index info in
      if i < length (storage info) then
        (let record = storage info ! i;
             geometry = JObj [(''type'', JStr ''Polygon''),
                              (''coordinates'', JArr (copy_vertices (bean_geometry record) 0 []))];
             recordJSON = \<lparr>json_type = bean_type record,
                           json_geometry = JStr (stringify geometry),
                           json_name = (case bean_title record of [] \<Rightarrow> None | t # _ \<Rightarrow> Some t)\<rparr>
         in Inr \<lparr>console_log = bean_id record,
                 posted = (case bean_id record of
                             None \<Rightarrow> \<lparr>url = ''/areas'', area = recordJSON, method_override = None\<rparr>
                           | Some rid \<Rightarrow> \<lparr>url = ''/areas/'' @ rid, area = recordJSON,
                                           method_override = Some ''PUT''\<rparr>)\<rparr>)
      else Inl TypeError)"

section \<open>The autosave aspect: addAutoSaveAspect (lines 295-315)\<close>

text \<open>
  The functions that pass through \<open>me.autoSaveListener\<close> and \<open>geomInfo.commitStyling\<close>
  are stored in the objects they act on, so they are named rather than given as HOL
  functions:
  \<^item> \<open>ControlFn k\<close> is a function created by a geometry control, such as the
    \<open>commitStyling\<close> callback of one editing session; \<open>k\<close> tells the instances apart;
  \<^item> \<open>CommitStylingWrapper\<close> is \<open>function(){ me.autoSaveListener(); }\<close> of lines 302-304;
  \<^item> \<open>AfterLink orig g\<close> is what \<open>addAfter\<close> puts into \<open>me.autoSaveListener\<close> at line 306:
    \<open>function() { return after(orig.apply(this, arguments), arguments, orig, this); }\<close>
    where \<open>orig\<close> is the member's value at that moment and \<open>after\<close> is the advice of
    lines 306-312, which calls \<open>me.saveData\<close> with the \<open>geomInfo\<close> object \<open>g\<close>.
\<close>

datatype fn = ControlFn nat | CommitStylingWrapper | AfterLink "fn option" nat

text \<open>
  \<open>Ran k\<close>: the control function \<open>k\<close> was called. \<open>SaveData g outcome\<close>: \<open>me.saveData\<close>
  was called with the \<open>geomInfo\<close> object \<open>g\<close> and threw or returned as \<open>outcome\<close> says.
\<close>

datatype autosave_event = Ran nat | SaveData nat "js_error + save_effects"

text \<open>
  \<open>geomInfo\<close> objects are known by a number: \<open>commitStyling me g\<close> is the
  \<open>commitStyling\<close> member of object \<open>g\<close>, and \<open>geomInfos me g\<close> holds its \<open>index\<close> and
  \<open>storage\<close>. \<open>happened\<close> records the calls of control functions and of \<open>saveData\<close>.
\<close>

record autosave_state =
  autoSaveListener :: "fn option"
  commitStyling :: "nat \<Rightarrow> fn option"
  geomInfos :: "nat \<Rightarrow> geom_info"
  happened :: "autosave_event list"

text \<open>
  Calling a function value. What a control function does, to the state and by returning
  or throwing, is the parameter \<open>control_fns\<close>. The second argument bounds the depth of
  nested calls; \<open>None\<close> means that the bound was reached. In the third equation the
  wrapper calls \<open>me.autoSaveListener()\<close>, whatever that member holds at the time of the
  call; in the fourth, the original runs first and, if it returns, the advice calls
  \<open>me.saveData({allData: false, geomInfo: geomInfo})\<close> with the object \<open>g\<close> that the
  advice closed over, and a throw of \<open>saveData\<close> leaves the call.
\<close>

fun apply_fn ::
  "(nat \<Rightarrow> (unit, autosave_state) js) \<Rightarrow> nat \<Rightarrow> fn \<Rightarrow> autosave_state \<Rightarrow>
   ((js_error + unit) \<times> autosave_state) option" where
  "apply_fn control_fns 0 f me = None"
| "apply_fn control_fns (Suc n) (ControlFn k) me =
     Some (control_fns k (me\<lparr>happened := happened me @ [Ran k]\<rparr>))"
| "apply_fn control_fns (Suc n) CommitStylingWrapper me =
     (case autoSaveListener me of
        None \<Rightarrow> Some (Inl TypeError, me)
      | Some f \<Rightarrow> apply_fn control_fns n f me)"
| "apply_fn control_fns (Suc n) (AfterLink orig g) me =
     (case orig of
        None \<Rightarrow> Some (Inl TypeError, me)
      | Some f \<Rightarrow>
          (case apply_fn control_fns n f me of
             None \<Rightarrow> None
           | Some (Inl e, me') \<Rightarrow> Some (Inl e, me')
           | Some (Inr _, me') \<Rightarrow>
               (let outcome = saveData \<lparr>allData = False, opts_geomInfo = geomInfos me' g\<rparr>;
                    me'' = me'\<lparr>happened := happened me' @ [SaveData g outcome]\<rparr>
                in case outcome of
                     Inl e \<Rightarrow> Some (Inl e, me'')
                   | Inr _ \<Rightarrow> Some (Inr (), me''))))"

text \<open>
  The advice that \<open>addAutoSaveAspect\<close> attaches before \<open>bindInfoWindow\<close>, on the
  \<open>geomInfo\<close> object \<open>args[0]\<close>: line 301, lines 302-304, then \<open>addAfter\<close> on the member
  \<open>autoSaveListener\<close>, that is \<open>attach_\<close> with the link of \<open>addAfter\<close>.
\<close>

definition autosave_advice :: "nat \<Rightarrow> autosave_state \<Rightarrow> autosave_state" where
  "autosave_advice geomInfo me =
     (let me1 = me\<lparr>autoSaveListener := commitStyling me geomInfo\<rparr>;
          me2 = me1\<lparr>commitStyling := (commitStyling me1)(geomInfo := Some CommitStylingWrapper)\<rparr>;
          orig = autoSaveListener me2
      in me2\<lparr>autoSaveListener := Some (AfterLink orig geomInfo)\<rparr>)"

text \<open>
  \<open>addAutoSaveAspect\<close> itself, on the members of \<open>me\<close> that take a \<open>geomInfo\<close> object.
  \<open>bindInfoWindow\<close> is not defined in this file; the object has it or not.
\<close>

definition addAutoSaveAspect ::
  "('t, nat, unit, autosave_state) jsobj \<Rightarrow> ('t, nat, unit, autosave_state) jsobj" where
  "addAutoSaveAspect members =
     addBefore members (Name ''bindInfoWindow'')
       (\<lambda>args orig this me. (Inr args, autosave_advice args me))"

text \<open>The call \<open>geomInfo.commitStyling()\<close> on object \<open>g\<close>.\<close>

definition commit ::
  "(nat \<Rightarrow> (unit, autosave_state) js) \<Rightarrow> nat \<Rightarrow> nat \<Rightarrow> autosave_state \<Rightarrow>
   ((js_error + unit) \<times> autosave_state) option" where
  "commit control_fns depth g me =
     (case commitStyling me g of
        None \<Rightarrow> Some (Inl TypeError, me)
      | Some f \<Rightarrow> apply_fn control_fns depth f me)"

section \<open>Sample objects\<close>

text \<open>
  A member and advice functions that record how they were called: the receiver, the
  arguments and the result they were given.
\<close>

datatype probe =
    OrigRan string "int list"
  | BeforeRan string "int list"
  | AfterRan string string int
  | AroundRan string "int list"

definition probe_member :: "(string, int list, int, probe list) jsfun" where
  "probe_member this xs s = (Inr (sum_list xs), s @ [OrigRan this xs])"

definition probe_before ::
  "int list \<Rightarrow> (string, int list, int, probe list) jsfun option \<Rightarrow> string \<Rightarrow> (int list, probe list) js" where
  "probe_before xs orig this s = (Inr (map ((*) 2) xs), s @ [BeforeRan this xs])"

definition probe_after ::
  "string \<Rightarrow> int \<Rightarrow> int \<Rightarrow> int list \<Rightarrow> (string, int list, int, probe list) jsfun option \<Rightarrow> string \<Rightarrow>
   (int, probe list) js" where
  "probe_after label d result xs orig this s = (Inr (result + d), s @ [AfterRan label this result])"

definition probe_around ::
  "int list \<Rightarrow> (string, int list, int, probe list) jsfun option \<Rightarrow> string \<Rightarrow> (int, probe list) js" where
  "probe_around xs orig this s = (Inr 0, s @ [AroundRan this xs])"

definition probe_obj :: "(string, int list, int, probe list) jsobj" where
  "probe_obj = [(''m'', probe_member), (''n'', probe_member)]"

text \<open>
  Two tools, the marker button at position 0 and the polygon button at position 1.
  \<open>idle_stop\<close> never touches the buttons; \<open>resetting_stop\<close> calls \<open>toggleButtons()\<close>
  without a name unless it was passed \<open>false\<close>; \<open>rude_stop\<close> puts every button on its
  down image.
\<close>

definition idle_start :: start_fn where
  "idle_start table objs = objs"

definition idle_stop :: stop_fn where
  "idle_stop arg table objs = objs"

definition resetting_stop :: stop_fn where
  "resetting_stop arg table objs = (if arg = Some False then objs else all_up table objs)"

definition rude_stop :: stop_fn where
  "rude_stop arg table objs = map (\<lambda>b. b\<lparr>img_src := img_down_url b\<rparr>) objs"

text \<open>The tables as the constructor leaves them (lines 76-77), with no button yet.\<close>

definition initial_controls :: controls_state where
  "initial_controls = \<lparr>objects = [], buttons = [], stopDigitizingFuncs = [], calls = []\<rparr>"

definition marker_opts :: "stop_fn \<Rightarrow> required_opts" where
  "marker_opts stop =
     \<lparr>controlName = ''markerControl'', opt_img_up_url = ''marker_up.png'',
      opt_img_down_url = ''marker_down.png'', startDigitizing = idle_start,
      stopDigitizing = stop\<rparr>"

definition polygon_opts :: "stop_fn \<Rightarrow> required_opts" where
  "polygon_opts stop =
     \<lparr>controlName = ''polygonControl'', opt_img_up_url = ''polygon_up.png'',
      opt_img_down_url = ''polygon_down.png'', startDigitizing = idle_start,
      stopDigitizing = stop\<rparr>"

definition two_tools :: "stop_fn \<Rightarrow> controls_state" where
  "two_tools stop =
     snd (createButton (polygon_opts stop)
            (snd (createButton (marker_opts stop) initial_controls)))"

text \<open>An editor with a marker control only, and with debugging switched off.\<close>

definition marker_control :: "nat control" where
  "marker_control =
     \<lparr>loadMarkers = Some (\<lambda>r. Inr (length (record_coordinates r))),
      loadPolylines = None, loadPolygons = None\<rparr>"

definition quiet_editor :: "nat dispatch_state" where
  "quiet_editor =
     addControl ''markerControl'' marker_control
       \<lparr>controls = [], Options_debug = False, debug_fn = DebugOfPrototype, GLog = [],
        loads = []\<rparr>"

definition default_editor :: "nat dispatch_state" where
  "default_editor =
     addControl ''markerControl'' marker_control
       \<lparr>controls = [], Options_debug = True, debug_fn = DebugOfPrototype, GLog = [],
        loads = []\<rparr>"

definition a_record :: "string \<Rightarrow> geometry_record" where
  "a_record t =
     \<lparr>record_type = t, record_coordinates = [(1, 2), (3, 4)], record_title = ''Lot A'',
      record_description = [], record_style = []\<rparr>"

text \<open>The stored polygon with the vertices (1,2) and (3,4) and the title Lot A.\<close>

definition lot_a :: geometry_bean where
  "lot_a =
     \<lparr>bean_type = ''poly'', bean_geometry = [\<lparr>lat = 1, lng = 2\<rparr>, \<lparr>lat = 3, lng = 4\<rparr>],
      bean_title = [''Lot A'', []], bean_id = None\<rparr>"

definition lot_a_opts :: save_opts where
  "lot_a_opts = \<lparr>allData = False, opts_geomInfo = \<lparr>index = 0, storage = [lot_a]\<rparr>\<rparr>"

text \<open>
  An editor whose \<open>bindInfoWindow\<close> does nothing to the autosave state. Three stored
  polygons, and editing sessions of which each has a \<open>commitStyling\<close> callback of its own,
  which returns; session \<open>g\<close> edits the polygon at index \<open>g\<close>.
\<close>

definition plain_bindInfoWindow :: "(unit, nat, unit, autosave_state) jsfun" where
  "plain_bindInfoWindow this geomInfo me = (Inr (), me)"

definition editor_members :: "(unit, nat, unit, autosave_state) jsobj" where
  "editor_members = [(''bindInfoWindow'', plain_bindInfoWindow)]"

definition lots :: "geometry_bean list" where
  "lots = [lot_a, lot_a\<lparr>bean_title := [''Lot B'', []]\<rparr>, lot_a\<lparr>bean_title := [''Lot C'', []]\<rparr>]"

definition session_info :: "nat \<Rightarrow> geom_info" where
  "session_info g = \<lparr>index = g, storage = lots\<rparr>"

definition returning_callbacks :: "nat \<Rightarrow> (unit, autosave_state) js" where
  "returning_callbacks k me = (Inr (), me)"

definition fresh_sessions :: autosave_state where
  "fresh_sessions =
     \<lparr>autoSaveListener = None, commitStyling = (\<lambda>g. Some (ControlFn g)),
      geomInfos = session_info, happened = []\<rparr>"

definition bind_session :: "nat \<Rightarrow> autosave_state \<Rightarrow> autosave_state" where
  "bind_session g me =
     snd (call_member (addAutoSaveAspect editor_members) ''bindInfoWindow'' () g me)"

text \<open>What \<open>saveData\<close> logs and posts for one of the three polygons, by its title.\<close>

definition posted_lot :: "string \<Rightarrow> save_effects" where
  \<open>posted_lot title =
     \<lparr>console_log = None,
      posted = \<lparr>url = ''/areas'',
                area = \<lparr>json_type = ''poly'',
                        json_geometry = JStr ''{"type":"Polygon","coordinates":[[2,1],[4,3]]}'',
                        json_name = Some title\<rparr>,
                method_override = None\<rparr>\<rparr>\<close>

section \<open>Basic facts\<close>

lemma js_bind_return_left: "js_bind (js_return v) k = k v"
  by (rule ext) (simp add: js_bind_def js_return_def)

lemma js_bind_assoc:
  "js_bind (js_bind m k) h = js_bind m (\<lambda>v. js_bind (k v) h)"
  by (rule ext) (simp add: js_bind_def split: prod.splits sum.splits)

lemma map_of_attach_same: "map_of (attach_aop obj member link) member = Some (link (map_of obj member))"
  by (simp add: attach_aop_def update_conv')

lemma map_of_attach_other:
  "k \<noteq> member \<Longrightarrow> map_of (attach_aop obj member link) k = map_of obj k"
  by (simp add: attach_aop_def update_conv')

lemma apply_orig_Some: "apply_orig (Some f) this xs = js_bind xs (\<lambda>args. f this args)"
  by (simp add: apply_orig_def)

lemma apply_orig_return: "apply_orig (Some f) this (js_return xs) = f this xs"
  by (simp add: apply_orig_def js_bind_return_left)

lemma process_members_lookup:
  "distinct ks \<Longrightarrow>
   map_of (process_members check link ks obj) m =
     (if m \<in> set ks \<and> check m then Some (link (map_of obj m)) else map_of obj m)"
proof (induction ks arbitrary: obj)
  case Nil
  then show ?case by simp
next
  case (Cons k ks)
  then have fresh: "k \<notin> set ks" and rest: "distinct ks" by simp_all
  have ih: "\<And>obj'. map_of (process_members check link ks obj') m =
     (if m \<in> set ks \<and> check m then Some (link (map_of obj' m)) else map_of obj' m)"
    using Cons.IH rest by simp
  show ?case
  proof (cases "m = k")
    case True
    then show ?thesis
      using fresh ih by (simp add: map_of_attach_same)
  next
    case False
    then show ?thesis
      using ih by (simp add: map_of_attach_other)
  qed
qed

lemma process_aop_lookup:
  assumes "distinct (map fst obj)" and "map_of obj m = Some orig"
    and "case flt of Name n \<Rightarrow> n = m | RegExp exec \<Rightarrow> exec m | Predicate call \<Rightarrow> call m"
  shows "map_of (process_aop obj flt link) m = Some (link (Some orig))"
proof -
  from assms(2) have "m \<in> set (map fst obj)"
    by (metis map_of_SomeD fst_conv image_eqI set_map)
  with assms show ?thesis
    by (cases flt) (simp_all add: process_members_lookup map_of_attach_same)
qed

section \<open>The advice engine\<close>

text \<open>
  Claim C3 (before-advice argument rewrite). For an object with a member \<open>m\<close>, after
  \<open>addBefore(obj, "m", fn)\<close> a call of \<open>m\<close> on a receiver with the arguments \<open>xs\<close> first
  runs \<open>fn(xs, original, receiver)\<close>, then runs the original \<open>m\<close> on the same receiver
  with the argument list that \<open>fn\<close> returned, in the state that \<open>fn\<close> left, and the
  result of the call is the result of the original, unchanged.
\<close>

theorem before_advice_rewrites_arguments:
  assumes "map_of obj m = Some orig"
  shows "call_member (addBefore obj (Name m) fn) m this xs
         = js_bind (fn xs (Some orig) this) (\<lambda>xs'. orig this xs')"
  using assms
  by (simp add: call_member_def addBefore_def map_of_attach_same apply_orig_Some)

theorem before_advice_rewrites_arguments_witness:
  "map_of probe_obj ''m'' = Some probe_member
   \<and> call_member (addBefore probe_obj (Name ''m'') probe_before) ''m'' ''receiver'' [1, 2] []
       = (Inr 6, [BeforeRan ''receiver'' [1, 2], OrigRan ''receiver'' [2, 4]])"
proof -
  have h: "map_of probe_obj ''m'' = Some probe_member"
    by (simp add: probe_obj_def)
  show ?thesis
    using h before_advice_rewrites_arguments [OF h, of probe_before "''receiver''" "[1, 2]"]
    by (simp add: js_bind_def probe_before_def probe_member_def)
qed

text \<open>
  Claim C2 (after-advice composition order). For an object with a member \<open>m\<close>, after
  \<open>addAfter(obj, "m", A)\<close> and then \<open>addAfter(obj, "m", B)\<close>, a call of \<open>m\<close> runs the
  original first, then \<open>A\<close> with the result of the original, then \<open>B\<close> with the value
  that \<open>A\<close> returned, and returns what \<open>B\<close> returns. \<open>B\<close>, attached last, is the outermost
  wrapper: the function handed to it as the original is the wrapper that holds \<open>A\<close>.
\<close>

theorem after_advice_composition:
  assumes "map_of obj m = Some orig"
  shows "map_of (addAfter obj (Name m) A) m
           = Some (\<lambda>this xs. js_bind (orig this xs) (\<lambda>r0. A r0 xs (Some orig) this))
     \<and> call_member (addAfter (addAfter obj (Name m) A) (Name m) B) m this xs
         = js_bind (orig this xs) (\<lambda>r0.
             js_bind (A r0 xs (Some orig) this) (\<lambda>r1.
               B r1 xs (Some (\<lambda>this xs. js_bind (orig this xs) (\<lambda>r0. A r0 xs (Some orig) this)))
                 this))"
proof -
  let ?wA = "\<lambda>this xs. js_bind (orig this xs) (\<lambda>r0. A r0 xs (Some orig) this)"
  have a: "map_of (addAfter obj (Name m) A) m = Some ?wA"
    using assms by (simp add: addAfter_def map_of_attach_same apply_orig_return)
  have "call_member (addAfter (addAfter obj (Name m) A) (Name m) B) m this xs
         = js_bind (?wA this xs) (\<lambda>r1. B r1 xs (Some ?wA) this)"
    by (simp add: call_member_def addAfter_def [of _ _ B] map_of_attach_same a apply_orig_return)
  then show ?thesis using a by (simp add: js_bind_assoc)
qed

theorem after_advice_composition_witness:
  "map_of probe_obj ''m'' = Some probe_member
   \<and> call_member
         (addAfter (addAfter probe_obj (Name ''m'') (probe_after ''A'' 1)) (Name ''m'')
            (probe_after ''B'' 10))
         ''m'' ''receiver'' [1, 2] []
       = (Inr 14, [OrigRan ''receiver'' [1, 2], AfterRan ''A'' ''receiver'' 3,
                   AfterRan ''B'' ''receiver'' 4])"
proof -
  have h: "map_of probe_obj ''m'' = Some probe_member"
    by (simp add: probe_obj_def)
  show ?thesis
    using h after_advice_composition [OF h, of "probe_after ''A'' 1" "probe_after ''B'' 10"
        "''receiver''" "[1, 2]"]
    by (simp add: js_bind_def probe_after_def probe_member_def)
qed

text \<open>
  Claim C9 (the wrappers keep the receiver). For each of \<open>addBefore\<close>, \<open>addAfter\<close> and
  \<open>addAround\<close>, and for a filter of any kind that picks the member \<open>m\<close>: when the wrapped
  member is called on a receiver \<open>this\<close>, the original function is applied to that same
  receiver (before, after) and the advice gets that same receiver as its last argument.
  The object given to \<open>addBefore\<close>, \<open>addAfter\<close> or \<open>addAround\<close> takes no part in the
  call: the right-hand sides mention \<open>obj\<close> nowhere.
\<close>

theorem advice_keeps_receiver:
  assumes "distinct (map fst obj)" and "map_of obj m = Some orig"
    and "case flt of Name n \<Rightarrow> n = m | RegExp exec \<Rightarrow> exec m | Predicate call \<Rightarrow> call m"
  shows "call_member (addBefore obj flt before) m this xs
           = js_bind (before xs (Some orig) this) (\<lambda>xs'. orig this xs')
     \<and> call_member (addAfter obj flt after) m this xs
           = js_bind (orig this xs) (\<lambda>result. after result xs (Some orig) this)
     \<and> call_member (addAround obj flt around) m this xs = around xs (Some orig) this"
  by (simp add: call_member_def addBefore_def addAfter_def addAround_def
      process_aop_lookup [OF assms] apply_orig_Some js_bind_return_left)

theorem advice_keeps_receiver_witness:
  "call_member (addBefore probe_obj (RegExp (\<lambda>name. name = ''m'')) probe_before) ''m'' ''other'' [5] []
       = (Inr 10, [BeforeRan ''other'' [5], OrigRan ''other'' [10]])
   \<and> call_member (addAfter probe_obj (RegExp (\<lambda>name. name = ''m'')) (probe_after ''A'' 1)) ''m'' ''other'' [5] []
       = (Inr 6, [OrigRan ''other'' [5], AfterRan ''A'' ''other'' 5])
   \<and> call_member (addAround probe_obj (RegExp (\<lambda>name. name = ''m'')) probe_around) ''m'' ''other'' [5] []
       = (Inr 0, [AroundRan ''other'' [5]])"
proof -
  have d: "distinct (map fst probe_obj)"
    by (simp add: probe_obj_def)
  have h: "map_of probe_obj ''m'' = Some probe_member"
    by (simp add: probe_obj_def)
  have f: "case RegExp (\<lambda>name. name = ''m'') of Name n \<Rightarrow> n = ''m'' | RegExp exec \<Rightarrow> exec ''m''
             | Predicate call \<Rightarrow> call ''m''"
    by simp
  show ?thesis
    using advice_keeps_receiver [OF d h f, of probe_before "''other''" "[5]" "probe_after ''A'' 1"
        probe_around]
    by (simp add: js_bind_def probe_before_def probe_after_def probe_member_def
        probe_around_def)
qed

section \<open>The buttons\<close>

lemma length_set_src [simp]: "length (set_src which r objs) = length objs"
  by (simp add: set_src_def)

lemma nth_set_src:
  "a < length objs \<Longrightarrow>
   set_src which r objs ! a = (if a = r then (objs ! a)\<lparr>img_src := which (objs ! a)\<rparr> else objs ! a)"
  by (simp add: set_src_def)

lemma length_all_up [simp]: "length (all_up table objs) = length objs"
  by (induction table objs rule: all_up.induct) simp_all

lemma nth_all_up:
  "a < length objs \<Longrightarrow>
   all_up table objs ! a =
     (if a \<in> snd ` set table then (objs ! a)\<lparr>img_src := img_up_url (objs ! a)\<rparr> else objs ! a)"
proof (induction table objs rule: all_up.induct)
  case (1 objs)
  then show ?case by simp
next
  case (2 name r rest objs)
  then show ?case by (auto simp: nth_set_src)
qed

lemma in_table_snd: "(n, r) \<in> set table \<Longrightarrow> r \<in> snd ` set table"
  by (metis image_eqI snd_conv)

lemma all_up_not_on:
  "(n, r) \<in> set table \<Longrightarrow> r < length objs \<Longrightarrow> \<not> is_on (all_up table objs ! r)"
  using in_table_snd [of n r table] by (simp add: nth_all_up is_on_def)


lemma only_on_all_up:
  "\<forall>(n, r) \<in> set table. r < length objs \<Longrightarrow> only_on name table (all_up table objs)"
  using all_up_not_on by (fastforce simp: only_on_def)

lemma only_on_named:
  assumes range: "\<forall>(n, r) \<in> set table. r < length objs"
    and inj: "distinct (map snd table)"
    and reg: "map_of table name = Some r"
  shows "only_on name table (set_src img_down_url r (all_up table objs))"
proof -
  have "n = name \<and> img_src (set_src img_down_url r (all_up table objs) ! a)
          = img_down_url (set_src img_down_url r (all_up table objs) ! a)"
    if m: "(n, a) \<in> set table" and on: "is_on (set_src img_down_url r (all_up table objs) ! a)"
    for n a
  proof (cases "a = r")
    case True
    from reg have "(name, r) \<in> set table" by (rule map_of_SomeD)
    with m True inj have "n = name"
      by (metis distinct_map inj_on_def snd_conv fst_conv)
    moreover from range m have "a < length (all_up table objs)" by auto
    ultimately show ?thesis using True by (simp add: nth_set_src)
  next
    case False
    from range m have a: "a < length objs" by auto
    with False have "set_src img_down_url r (all_up table objs) ! a = all_up table objs ! a"
      by (simp add: nth_set_src)
    with on all_up_not_on [OF m a] show ?thesis by simp
  qed
  then show ?thesis by (auto simp: only_on_def)
qed

lemma keeps_protocol_only_on:
  "keeps_protocol f \<Longrightarrow> \<forall>(n, r) \<in> set table. r < length objs \<Longrightarrow>
   only_on name table objs \<Longrightarrow> only_on name table (f (Some False) table objs)"
  unfolding keeps_protocol_def using only_on_all_up by metis

lemma keeps_protocol_length:
  "keeps_protocol f \<Longrightarrow> length (f (Some False) table objs) = length objs"
  unfolding keeps_protocol_def using length_all_up by metis

lemma stop_others_funcs [simp]:
  "stopDigitizingFuncs (stop_others name fs me) = stopDigitizingFuncs me"
  by (induction fs arbitrary: me) (auto simp: call_stop_def)

lemma stop_others_buttons [simp]:
  "buttons (stop_others name fs me) = buttons me"
  by (induction fs arbitrary: me) (auto simp: call_stop_def)


lemma stop_others_length:
  "\<forall>(n, f) \<in> set fs. keeps_protocol f
   \<Longrightarrow> length (objects (stop_others name fs me)) = length (objects me)"
  by (induction fs arbitrary: me) (auto simp: call_stop_def keeps_protocol_length)

lemma stop_others_only_on:
  "\<forall>(n, f) \<in> set fs. keeps_protocol f
   \<Longrightarrow> \<forall>(n, r) \<in> set (buttons me). r < length (objects me)
   \<Longrightarrow> only_on name (buttons me) (objects me)
   \<Longrightarrow> only_on name (buttons me) (objects (stop_others name fs me))"
proof (induction fs arbitrary: me)
  case Nil
  then show ?case by simp
next
  case (Cons p fs)
  obtain func f where p: "p = (func, f)" by (cases p)
  show ?case
  proof (cases "func \<noteq> name")
    case True
    let ?me = "call_stop func f (Some False) me"
    from Cons.prems(1) p have k: "keeps_protocol f" by simp
    have b: "buttons ?me = buttons me" by (simp add: call_stop_def)
    have r: "\<forall>(n, r) \<in> set (buttons ?me). r < length (objects ?me)"
      using Cons.prems(2) k by (simp add: call_stop_def keeps_protocol_length)
    have o: "only_on name (buttons ?me) (objects ?me)"
      using keeps_protocol_only_on [OF k Cons.prems(2) Cons.prems(3)]
      by (simp add: call_stop_def)
    have "only_on name (buttons ?me) (objects (stop_others name fs ?me))"
      using Cons.prems(1) r o by (intro Cons.IH) simp_all
    then show ?thesis using True p b by simp
  next
    case False
    then show ?thesis using Cons p by simp
  qed
qed

lemma toggleButtons_registered:
  assumes wf: "well_formed me"
    and conf: "\<forall>(n, f) \<in> set (stopDigitizingFuncs me). keeps_protocol f"
    and reg: "name \<in> fst ` set (buttons me)"
  shows "\<exists>me'. toggleButtons (Some name) me = (Inr (), me')
           \<and> only_on name (buttons me') (objects me')
           \<and> buttons me' = buttons me
           \<and> length (objects me') = length (objects me)
           \<and> stopDigitizingFuncs me' = stopDigitizingFuncs me"
proof (cases "name = []")
  case True
  then show ?thesis
    using wf by (simp add: toggleButtons_def only_on_all_up well_formed_def)
next
  case False
  from wf have range: "\<forall>(n, r) \<in> set (buttons me). r < length (objects me)"
    and inj: "distinct (map snd (buttons me))"
    by (simp_all add: well_formed_def)
  from reg obtain r where r: "map_of (buttons me) name = Some r"
    by (metis domIff dom_map_of_conv_image_fst not_Some_eq)
  let ?me2 = "me\<lparr>objects := set_src img_down_url r (all_up (buttons me) (objects me))\<rparr>"
  let ?me3 = "stop_others name (stopDigitizingFuncs ?me2) ?me2"
  have t: "toggleButtons (Some name) me = (Inr (), ?me3)"
    using False r by (simp add: toggleButtons_def Let_def)
  have o2: "only_on name (buttons ?me2) (objects ?me2)"
    using only_on_named [OF range inj r] by simp
  have r2: "\<forall>(n, r) \<in> set (buttons ?me2). r < length (objects ?me2)"
    using range by simp
  have e: "only_on name (buttons ?me3) (objects ?me3)"
    using stop_others_only_on [of "stopDigitizingFuncs ?me2" ?me2 name] conf r2 o2 by simp
  have l: "length (objects ?me3) = length (objects me)"
    using conf by (simp add: stop_others_length)
  show ?thesis using t e l by simp
qed

lemma toggle_all_registered:
  assumes "well_formed me"
    and "\<forall>(n, f) \<in> set (stopDigitizingFuncs me). keeps_protocol f"
    and "set names \<subseteq> fst ` set (buttons me)"
    and "names \<noteq> []"
  shows "\<exists>me'. toggle_all names me = (Inr (), me')
     \<and> only_on (last names) (buttons me') (objects me')
     \<and> buttons me' = buttons me
     \<and> well_formed me'"
  using assms
proof (induction names arbitrary: me)
  case Nil
  then show ?case by simp
next
  case (Cons name names)
  from Cons.prems obtain me1 where
    t: "toggleButtons (Some name) me = (Inr (), me1)"
    and e: "only_on name (buttons me1) (objects me1)"
    and k: "buttons me1 = buttons me"
    and l: "length (objects me1) = length (objects me)"
    and f: "stopDigitizingFuncs me1 = stopDigitizingFuncs me"
    using toggleButtons_registered [of me name] by auto
  have wf1: "well_formed me1"
    using Cons.prems(1) k l by (simp add: well_formed_def)
  show ?case
  proof (cases "names = []")
    case True
    then show ?thesis using t e k wf1 by (simp add: js_bind_def)
  next
    case False
    have "set names \<subseteq> fst ` set (buttons me1)"
      using Cons.prems(3) k by simp
    with Cons.IH [of me1] wf1 f Cons.prems(2) False
    obtain me' where "toggle_all names me1 = (Inr (), me')"
      and "only_on (last names) (buttons me') (objects me')"
      and "buttons me' = buttons me1" and "well_formed me'"
      by auto
    then show ?thesis using t k False by (simp add: js_bind_def)
  qed
qed

lemma set_update_subset: "set (AList.update k v al) \<subseteq> insert (k, v) (set al)"
  by (induction al) auto

lemma distinct_snd_update:
  "distinct (map snd al) \<Longrightarrow> v \<notin> snd ` set al \<Longrightarrow> distinct (map snd (AList.update k v al))"
proof (induction al)
  case Nil
  then show ?case by simp
next
  case (Cons p al)
  have sub: "snd ` set (AList.update k v al) \<subseteq> insert v (snd ` set al)"
  proof (induction al)
    case Nil
    then show ?case by simp
  next
    case (Cons q al)
    then show ?case by auto
  qed
  from Cons show ?case using sub by (auto simp: image_iff)
qed

lemma well_formed_initial: "well_formed initial_controls"
  by (simp add: well_formed_def initial_controls_def)

lemma well_formed_createButton:
  assumes "well_formed me"
  shows "well_formed (snd (createButton opts me))"
proof -
  let ?r = "length (objects me)"
  from assms have range: "\<forall>(n, r) \<in> set (buttons me). r < ?r"
    and inj: "distinct (map snd (buttons me))"
    by (simp_all add: well_formed_def)
  from range have fresh: "?r \<notin> snd ` set (buttons me)" by fastforce
  have "set (AList.update (controlName opts) ?r (buttons me))
          \<subseteq> insert (controlName opts, ?r) (set (buttons me))"
    by (rule set_update_subset)
  with range have "\<forall>(n, r) \<in> set (AList.update (controlName opts) ?r (buttons me)). r < Suc ?r"
    by fastforce
  moreover have "distinct (map snd (AList.update (controlName opts) ?r (buttons me)))"
    using inj fresh by (rule distinct_snd_update)
  ultimately show ?thesis
    by (simp add: well_formed_def createButton_def Let_def)
qed

lemmas sample_tools =
  two_tools_def polygon_opts_def marker_opts_def initial_controls_def createButton_def
  idle_start_def idle_stop_def resetting_stop_def rude_stop_def

lemmas button_steps =
  toggleButtons_def click_def is_up_def set_src_def call_stop_def call_start_def js_bind_def
  Let_def

text \<open>
  Claim C1 (exclusivity), as amended. Take a state in which every registered button is in
  the store and no two names share a button, as \<open>createButton\<close> leaves it, and any
  sequence of \<open>toggleButtons(name)\<close> calls with names that have a button. If every
  registered stop function, when it is called with \<open>false\<close>, leaves the button images
  alone or resets them all (the note of lines 207-208), then each of the calls returns, and
  after the \<open>k\<close>-th call, for every \<open>k\<close>: a registered button that is on (its image is not
  its up image, the test of line 177) is the one named in that call and shows its down
  image; a registered button that shows its down image, and whose up and down images
  differ, is the one named in that call; so at most one tool is on. Without the condition
  on the stop functions this fails: \<open>createButton\<close> stores any function.
\<close>

theorem toggle_exclusive:
  assumes "well_formed me"
    and "\<forall>(n, f) \<in> set (stopDigitizingFuncs me). keeps_protocol f"
    and "set names \<subseteq> fst ` set (buttons me)"
    and "0 < k" and "k \<le> length names"
  shows "\<exists>me'. toggle_all (take k names) me = (Inr (), me')
     \<and> buttons me' = buttons me
     \<and> (\<forall>(n, r) \<in> set (buttons me').
           is_on (objects me' ! r) \<longrightarrow>
             n = names ! (k - 1) \<and> img_src (objects me' ! r) = img_down_url (objects me' ! r))
     \<and> (\<forall>(n, r) \<in> set (buttons me').
           img_src (objects me' ! r) = img_down_url (objects me' ! r)
           \<and> img_up_url (objects me' ! r) \<noteq> img_down_url (objects me' ! r) \<longrightarrow>
             n = names ! (k - 1))
     \<and> (\<forall>(n, r) \<in> set (buttons me'). \<forall>(n', r') \<in> set (buttons me').
           is_on (objects me' ! r) \<and> is_on (objects me' ! r') \<longrightarrow> n = n')"
proof -
  have sub: "set (take k names) \<subseteq> fst ` set (buttons me)"
    using assms(3) set_take_subset by fastforce
  have ne: "take k names \<noteq> []"
    using assms(4,5) by auto
  have l: "last (take k names) = names ! (k - 1)"
  proof -
    have "last (take k names) = take k names ! (length (take k names) - 1)"
      using ne by (rule last_conv_nth)
    also have "length (take k names) = k" using assms(5) by simp
    also have "take k names ! (k - 1) = names ! (k - 1)" using assms(4) by simp
    finally show ?thesis .
  qed
  from toggle_all_registered [OF assms(1,2) sub ne] obtain me' where
    r: "toggle_all (take k names) me = (Inr (), me')"
    and o: "only_on (names ! (k - 1)) (buttons me') (objects me')"
    and t: "buttons me' = buttons me"
    using l by auto
  from o have one: "\<forall>(n, r) \<in> set (buttons me').
      is_on (objects me' ! r) \<longrightarrow>
        n = names ! (k - 1) \<and> img_src (objects me' ! r) = img_down_url (objects me' ! r)"
    by (simp add: only_on_def)
  have named: "n = names ! (k - 1)"
    if "(n, r) \<in> set (buttons me')" and "is_on (objects me' ! r)" for n r
    using one that by blast
  have shown: "\<forall>(n, r) \<in> set (buttons me').
      img_src (objects me' ! r) = img_down_url (objects me' ! r)
      \<and> img_up_url (objects me' ! r) \<noteq> img_down_url (objects me' ! r) \<longrightarrow>
        n = names ! (k - 1)"
  proof (intro ballI, clarify)
    fix n r
    assume "(n, r) \<in> set (buttons me')"
      and "img_src (objects me' ! r) = img_down_url (objects me' ! r)"
      and "img_up_url (objects me' ! r) \<noteq> img_down_url (objects me' ! r)"
    then show "n = names ! (k - 1)" using named [of n r] by (simp add: is_on_def)
  qed
  have two: "\<forall>(n, r) \<in> set (buttons me'). \<forall>(n', r') \<in> set (buttons me').
      is_on (objects me' ! r) \<and> is_on (objects me' ! r') \<longrightarrow> n = n'"
  proof (intro ballI, clarify)
    fix n r n' r'
    assume "(n, r) \<in> set (buttons me')" "(n', r') \<in> set (buttons me')"
      "is_on (objects me' ! r)" "is_on (objects me' ! r')"
    then show "n = n'" using named by metis
  qed
  show ?thesis
    by (intro exI [of _ me'] conjI r t one shown two)
qed

theorem toggle_exclusive_witness:
  "fst (toggle_all [''markerControl'', ''polygonControl''] (two_tools resetting_stop)) = Inr ()
   \<and> buttons (snd (toggle_all [''markerControl'', ''polygonControl''] (two_tools resetting_stop)))
       = [(''markerControl'', 0), (''polygonControl'', 1)]
   \<and> map img_src
        (objects (snd (toggle_all [''markerControl'', ''polygonControl'']
           (two_tools resetting_stop))))
       = [''marker_up.png'', ''polygon_down.png'']"
proof -
  let ?names = "[''markerControl'', ''polygonControl'', ''markerControl'']"
  let ?two = "[''markerControl'', ''polygonControl'']"
  let ?me = "two_tools resetting_stop"
  have p: "keeps_protocol resetting_stop"
    by (simp add: keeps_protocol_def resetting_stop_def)
  have h0: "well_formed ?me"
    by (simp add: sample_tools well_formed_def Let_def)
  have h1: "\<forall>(n, f) \<in> set (stopDigitizingFuncs ?me). keeps_protocol f"
    using p by (simp add: two_tools_def polygon_opts_def marker_opts_def initial_controls_def
        createButton_def Let_def)
  have h2: "set ?names \<subseteq> fst ` set (buttons ?me)"
    by (simp add: sample_tools Let_def)
  have h3: "(0::nat) < 2" by simp
  have h4: "2 \<le> length ?names" by simp
  have "take 2 ?names = ?two" by (simp add: numeral_2_eq_2)
  with toggle_exclusive [OF h0 h1 h2 h3 h4] obtain me' where
    "toggle_all ?two ?me = (Inr (), me')" by auto
  then have "fst (toggle_all ?two ?me) = Inr ()" by simp
  moreover have "buttons (snd (toggle_all ?two ?me))
      = [(''markerControl'', 0), (''polygonControl'', 1)]"
    by (simp add: sample_tools button_steps)
  moreover have "map img_src (objects (snd (toggle_all ?two ?me)))
      = [''marker_up.png'', ''polygon_down.png'']"
    by (simp add: sample_tools button_steps)
  ultimately show ?thesis by simp
qed

theorem toggle_exclusive_counterexample:
  "fst (toggleButtons (Some ''polygonControl'') (two_tools rude_stop)) = Inr ()
   \<and> buttons (snd (toggleButtons (Some ''polygonControl'') (two_tools rude_stop)))
       = [(''markerControl'', 0), (''polygonControl'', 1)]
   \<and> is_on (objects (snd (toggleButtons (Some ''polygonControl'') (two_tools rude_stop))) ! 0)
   \<and> is_on (objects (snd (toggleButtons (Some ''polygonControl'') (two_tools rude_stop))) ! 1)
   \<and> map img_src (objects (snd (toggleButtons (Some ''polygonControl'') (two_tools rude_stop))))
       = [''marker_down.png'', ''polygon_down.png'']"
  by (simp add: sample_tools button_steps is_on_def)





section \<open>Dispatch to the geometry controls\<close>

lemma debug_controls [simp]: "controls (debug msg me) = controls me"
  by (simp add: debug_def Let_def split: debug_impl.splits)

lemma debug_loads [simp]: "loads (debug msg me) = loads me"
  by (simp add: debug_def Let_def split: debug_impl.splits)

lemma debug_GLog:
  "GLog (debug msg me) =
     (if debug_fn me = DebugWrites \<or> (debug_fn me = DebugOfPrototype \<and> Options_debug me)
      then GLog me @ [msg] else GLog me)"
  by (simp add: debug_def Let_def split: debug_impl.splits)

lemma createGeometry_missing_control:
  assumes "dispatches t name method label" and "record_type r = t"
    and "map_of (controls me) name = None"
  shows "createGeometry r me = (Inr None, debug (CatchMessage TypeError) me)"
  using assms
  by (auto simp: dispatches_def createGeometry_def dispatch_switch_def call_load_def)

lemma createGeometry_loaded:
  assumes "dispatches t name method label" and "record_type p = t"
    and "map_of (controls me) name = Some c" and "method c = Some load" and "load p = Inr v"
  shows "createGeometry p me = (Inr (Some v), me\<lparr>loads := loads me @ [label]\<rparr>)"
  using assms
  by (auto simp: dispatches_def createGeometry_def dispatch_switch_def call_load_def)

lemmas sample_editors =
  quiet_editor_def default_editor_def addControl_def marker_control_def a_record_def

lemmas dispatch_steps =
  createGeometry_def dispatch_switch_def call_load_def debug_def Let_def

text \<open>
  Claim C8 (a type without a registered control is tolerated), as amended. For a record
  of a listed type (\<open>point\<close>, \<open>line\<close>, \<open>poly\<close>) whose control is not registered,
  \<open>createGeometry_\<close> returns \<open>undefined\<close> and raises nothing; it calls no load method and
  hands the message of the catch block to \<open>me.debug\<close>, which appends it to the log when
  debugging is on (the default, or an earlier call fixed the writing function) and writes
  nothing when it is off. A later \<open>createGeometry_\<close> for a record of a listed type whose
  control is registered and whose load method returns \<open>v\<close> calls that method and
  returns \<open>v\<close>.
\<close>

theorem unregistered_type_tolerated:
  assumes "dispatches t name method label" and "record_type r = t"
    and "map_of (controls me) name = None"
    and "dispatches t' name' method' label'" and "record_type p = t'"
    and "map_of (controls me) name' = Some c" and "method' c = Some load"
    and "load p = Inr v"
  shows "createGeometry r me = (Inr None, debug (CatchMessage TypeError) me)
     \<and> GLog (debug (CatchMessage TypeError) me) =
          (if debug_fn me = DebugWrites \<or> (debug_fn me = DebugOfPrototype \<and> Options_debug me)
           then GLog me @ [CatchMessage TypeError] else GLog me)
     \<and> loads (debug (CatchMessage TypeError) me) = loads me
     \<and> controls (debug (CatchMessage TypeError) me) = controls me
     \<and> createGeometry p (snd (createGeometry r me))
         = (Inr (Some v), (debug (CatchMessage TypeError) me)\<lparr>loads := loads me @ [label']\<rparr>)"
proof -
  let ?me = "debug (CatchMessage TypeError) me"
  have a: "createGeometry r me = (Inr None, ?me)"
    using assms(1-3) by (rule createGeometry_missing_control)
  have "map_of (controls ?me) name' = Some c"
    using assms(6) by simp
  with assms(4,5) have "createGeometry p ?me = (Inr (Some v), ?me\<lparr>loads := loads ?me @ [label']\<rparr>)"
    using assms(7,8) by (rule createGeometry_loaded)
  then show ?thesis using a by (simp add: debug_GLog)
qed

theorem unregistered_type_tolerated_witness:
  "fst (createGeometry (a_record ''line'') default_editor) = Inr None
   \<and> GLog (snd (createGeometry (a_record ''line'') default_editor))
       = [CatchMessage TypeError]
   \<and> fst (createGeometry (a_record ''point'')
        (snd (createGeometry (a_record ''line'') default_editor))) = Inr (Some 2)
   \<and> loads (snd (createGeometry (a_record ''point'')
        (snd (createGeometry (a_record ''line'') default_editor)))) = [''loadMarkers'']"
proof -
  have h0: "dispatches ''line'' ''polylineControl''
      (loadPolylines :: nat control \<Rightarrow> _) ''loadPolylines''"
    by (simp add: dispatches_def)
  have h1: "record_type (a_record ''line'') = ''line''" by (simp add: a_record_def)
  have h2: "map_of (controls default_editor) ''polylineControl'' = None"
    by (simp add: sample_editors)
  have g0: "dispatches ''point'' ''markerControl''
      (loadMarkers :: nat control \<Rightarrow> _) ''loadMarkers''"
    by (simp add: dispatches_def)
  have h3: "record_type (a_record ''point'') = ''point''" by (simp add: a_record_def)
  have h4: "map_of (controls default_editor) ''markerControl'' = Some marker_control"
    by (simp add: sample_editors)
  have h5: "loadMarkers marker_control = Some (\<lambda>r. Inr (length (record_coordinates r)))"
    by (simp add: marker_control_def)
  have h6: "(\<lambda>r. Inr (length (record_coordinates r))) (a_record ''point'')
      = (Inr 2 :: js_error + nat)"
    by (simp add: a_record_def)
  have d: "debug_fn default_editor = DebugOfPrototype \<and> Options_debug default_editor
      \<and> GLog default_editor = [] \<and> loads default_editor = []"
    by (simp add: sample_editors)
  note t = unregistered_type_tolerated [OF h0 h1 h2 g0 h3 h4 h5 h6]
  from t have a: "createGeometry (a_record ''line'') default_editor
      = (Inr None, debug (CatchMessage TypeError) default_editor)"
    by (rule conjunct1)
  from t d have b: "GLog (debug (CatchMessage TypeError) default_editor)
      = [CatchMessage TypeError]"
    by simp
  from t have "createGeometry (a_record ''point'')
      (snd (createGeometry (a_record ''line'') default_editor))
      = (Inr (Some 2), (debug (CatchMessage TypeError) default_editor)
           \<lparr>loads := loads default_editor @ [''loadMarkers'']\<rparr>)"
    by blast
  with d have c: "createGeometry (a_record ''point'')
      (snd (createGeometry (a_record ''line'') default_editor))
      = (Inr (Some 2), (debug (CatchMessage TypeError) default_editor)\<lparr>loads := [''loadMarkers'']\<rparr>)"
    by simp
  from a have "fst (createGeometry (a_record ''line'') default_editor) = Inr None" by simp
  moreover from a b have "GLog (snd (createGeometry (a_record ''line'') default_editor))
      = [CatchMessage TypeError]" by simp
  moreover from c have "fst (createGeometry (a_record ''point'')
      (snd (createGeometry (a_record ''line'') default_editor))) = Inr (Some 2)" by simp
  moreover from c have "loads (snd (createGeometry (a_record ''point'')
      (snd (createGeometry (a_record ''line'') default_editor)))) = [''loadMarkers'']" by simp
  ultimately show ?thesis by blast
qed

theorem unregistered_type_counterexample:
  "record_type (a_record ''line'') = ''line''
   \<and> map_of (controls quiet_editor) ''polylineControl'' = None
   \<and> Options_debug quiet_editor = False
   \<and> fst (createGeometry (a_record ''line'') quiet_editor) = Inr None
   \<and> GLog (snd (createGeometry (a_record ''line'') quiet_editor)) = []"
  by (simp add: sample_editors dispatch_steps)

text \<open>
  Claim C10 (unknown type strings fall through). For a record whose type is none of
  \<open>point\<close>, \<open>line\<close> and \<open>poly\<close>, \<open>createGeometry_\<close> returns \<open>undefined\<close> and leaves the
  state as it was: no load method is called, nothing is logged, \<open>me.debug\<close> is not even
  called, and nothing is raised.
\<close>

theorem unknown_type_silent:
  assumes "record_type r \<noteq> ''point''" and "record_type r \<noteq> ''line''"
    and "record_type r \<noteq> ''poly''"
  shows "createGeometry r me = (Inr None, me)"
  using assms by (simp add: createGeometry_def dispatch_switch_def)

theorem unknown_type_silent_witness:
  "record_type (a_record ''circle'') \<noteq> ''point''
   \<and> createGeometry (a_record ''circle'') default_editor = (Inr None, default_editor)"
proof -
  have h1: "record_type (a_record ''circle'') \<noteq> ''point''" by (simp add: a_record_def)
  have h2: "record_type (a_record ''circle'') \<noteq> ''line''" by (simp add: a_record_def)
  have h3: "record_type (a_record ''circle'') \<noteq> ''poly''" by (simp add: a_record_def)
  show ?thesis
    using h1 unknown_type_silent [OF h1 h2 h3, of default_editor] by simp
qed

section \<open>Persistence\<close>

lemma copy_vertices_from:
  "copy_vertices g i acc = acc @ map (\<lambda>v. JArr [JNum (lng v), JNum (lat v)]) (drop i g)"
proof (induction g i acc rule: copy_vertices.induct)
  case (1 geometry i coordinates)
  show ?case
  proof (cases "i < length geometry")
    case True
    then have d: "drop i geometry = geometry ! i # drop (Suc i) geometry"
      by (simp add: Cons_nth_drop_Suc)
    have "copy_vertices geometry i coordinates = copy_vertices geometry (i + 1)
          (coordinates @ [JArr [JNum (lng (geometry ! i)), JNum (lat (geometry ! i))]])"
      using True by (subst copy_vertices.simps) simp
    also have "\<dots> = (coordinates @ [JArr [JNum (lng (geometry ! i)), JNum (lat (geometry ! i))]])
          @ map (\<lambda>v. JArr [JNum (lng v), JNum (lat v)]) (drop (i + 1) geometry)"
      using 1 True by simp
    finally show ?thesis using d by simp
  next
    case False
    then show ?thesis by (subst copy_vertices.simps) simp
  qed
qed

lemma copy_vertices_all:
  "copy_vertices g 0 [] = map (\<lambda>v. JArr [JNum (lng v), JNum (lat v)]) g"
  by (simp add: copy_vertices_from)

lemma stringify_lot_a:
  \<open>stringify (JObj [(''type'', JStr ''Polygon''),
      (''coordinates'', JArr [JArr [JNum 2, JNum 1], JArr [JNum 4, JNum 3]])])
   = ''{"type":"Polygon","coordinates":[[2,1],[4,3]]}''\<close>
  by code_simp

text \<open>
  Claim C4 (shape of the persisted payload), as amended. For a stored record \<open>r\<close> that
  \<open>saveData\<close> finds at \<open>geomInfo.storage[index]\<close>, the posted \<open>area\<close> has the \<open>type\<close> of
  \<open>r\<close>, as \<open>name\<close> the first entry of the title array of \<open>r\<close>, and as \<open>geometry\<close> a string:
  the JSON text of the object with \<open>type\<close> \<open>Polygon\<close> and with \<open>coordinates\<close> the
  \<open>[lng, lat]\<close> pairs of the vertices of \<open>r\<close>, in the order of the vertices. For the
  vertices (1,2), (3,4) and the title Lot A that string is
  \<open>{"type":"Polygon","coordinates":[[2,1],[4,3]]}\<close>. The value is a function of \<open>r\<close>
  alone.
\<close>

theorem saveData_payload:
  assumes "index (opts_geomInfo opts) < length (storage (opts_geomInfo opts))"
    and "r = storage (opts_geomInfo opts) ! index (opts_geomInfo opts)"
  shows "\<exists>effects. saveData opts = Inr effects
     \<and> area (posted effects) =
         \<lparr>json_type = bean_type r,
          json_geometry = JStr (stringify (JObj [(''type'', JStr ''Polygon''),
             (''coordinates'',
              JArr (map (\<lambda>v. JArr [JNum (lng v), JNum (lat v)]) (bean_geometry r)))])),
          json_name = (case bean_title r of [] \<Rightarrow> None | t # _ \<Rightarrow> Some t)\<rparr>"
  using assms
  by (simp add: saveData_def Let_def copy_vertices_all split: option.splits)

theorem saveData_payload_witness:
  \<open>index (opts_geomInfo lot_a_opts) < length (storage (opts_geomInfo lot_a_opts))
   \<and> map_sum id (area \<circ> posted) (saveData lot_a_opts) =
       Inr \<lparr>json_type = ''poly'',
            json_geometry = JStr ''{"type":"Polygon","coordinates":[[2,1],[4,3]]}'',
            json_name = Some ''Lot A''\<rparr>\<close>
proof -
  have h1: "index (opts_geomInfo lot_a_opts) < length (storage (opts_geomInfo lot_a_opts))"
    by (simp add: lot_a_opts_def)
  have h2: "lot_a = storage (opts_geomInfo lot_a_opts) ! index (opts_geomInfo lot_a_opts)"
    by (simp add: lot_a_opts_def)
  from saveData_payload [OF h1 h2] obtain effects where
    "saveData lot_a_opts = Inr effects"
    and "area (posted effects) =
         \<lparr>json_type = bean_type lot_a,
          json_geometry = JStr (stringify (JObj [(''type'', JStr ''Polygon''),
             (''coordinates'',
              JArr (map (\<lambda>v. JArr [JNum (lng v), JNum (lat v)]) (bean_geometry lot_a)))])),
          json_name = (case bean_title lot_a of [] \<Rightarrow> None | t # _ \<Rightarrow> Some t)\<rparr>"
    by blast
  then show ?thesis
    using h1 stringify_lot_a by (simp add: lot_a_def)
qed

theorem saveData_payload_counterexample:
  \<open>saveData lot_a_opts =
     Inr \<lparr>console_log = None,
          posted = \<lparr>url = ''/areas'',
                    area = \<lparr>json_type = ''poly'',
                            json_geometry = JStr ''{"type":"Polygon","coordinates":[[2,1],[4,3]]}'',
                            json_name = Some ''Lot A''\<rparr>,
                    method_override = None\<rparr>\<rparr>
   \<and> JStr ''{"type":"Polygon","coordinates":[[2,1],[4,3]]}''
       \<noteq> JArr [JArr [JNum 2, JNum 1], JArr [JNum 4, JNum 3]]\<close>
proof -
  have "copy_vertices (bean_geometry lot_a) 0 []
      = [JArr [JNum 2, JNum 1], JArr [JNum 4, JNum 3]]"
    by (simp add: copy_vertices_all lot_a_def)
  then show ?thesis
    using stringify_lot_a by (simp add: saveData_def lot_a_opts_def Let_def lot_a_def)
qed

section \<open>The autosave aspect\<close>

lemma saveData_session:
  "saveData \<lparr>allData = False, opts_geomInfo = session_info (Suc 0)\<rparr>
     = Inr (posted_lot ''Lot B'')"
  "saveData \<lparr>allData = False, opts_geomInfo = session_info 2\<rparr>
     = Inr (posted_lot ''Lot C'')"
  by code_simp+

lemmas sample_sessions =
  bind_session_def addAutoSaveAspect_def editor_members_def plain_bindInfoWindow_def
  fresh_sessions_def call_member_def addBefore_def attach_aop_def apply_orig_def js_bind_def
  autosave_advice_def Let_def commit_def returning_callbacks_def

text \<open>
  Claim C6 (interception of the per-session callback): the code at an input where it does
  not do what the claim says. Sessions 1 and 2, each with its own \<open>commitStyling\<close>
  callback, are bound in this order through the intercepted \<open>bindInfoWindow\<close>. A commit
  of session 2, bound last, runs the callback of session 2 and then \<open>saveData\<close> with the
  \<open>geomInfo\<close> of session 2, once. A commit of session 1 does the very same: the wrapper of
  lines 302-304 calls whatever \<open>me.autoSaveListener\<close> holds, and that is by now the
  function attached for session 2; the callback of session 1 does not run and
  \<open>saveData\<close> is not called with the \<open>geomInfo\<close> of session 1.
\<close>

theorem autosave_earlier_session_diverges:
  "commitStyling fresh_sessions 1 = Some (ControlFn 1)
   \<and> commitStyling fresh_sessions 2 = Some (ControlFn 2)
   \<and> map_option (happened \<circ> snd)
        (commit returning_callbacks 3 2 (bind_session 2 (bind_session 1 fresh_sessions)))
       = Some [Ran 2, SaveData 2 (Inr (posted_lot ''Lot C''))]
   \<and> map_option (happened \<circ> snd)
        (commit returning_callbacks 3 1 (bind_session 2 (bind_session 1 fresh_sessions)))
       = Some [Ran 2, SaveData 2 (Inr (posted_lot ''Lot C''))]
   \<and> map_option (happened \<circ> snd)
        (commit returning_callbacks 3 1 (bind_session 1 fresh_sessions))
       = Some [Ran 1, SaveData 1 (Inr (posted_lot ''Lot B''))]"
  by (simp add: sample_sessions saveData_session numeral_3_eq_3)

end
